theory Spec2Isabelle
  imports Complex_Main
begin

section \<open>Python strings and integers\<close>

text \<open>
  A Python \<open>str\<close> is a sequence of Unicode code points and \<open>len\<close> counts code points,
  so a string is modelled as the list of its code points. \<open>lit\<close> embeds an ASCII literal.
  Python integers are unbounded: \<open>int\<close>.
\<close>

type_synonym pystr = "nat list"

definition lit :: "string \<Rightarrow> pystr" where
  "lit s = map of_char s"

text \<open>\<open>str(n)\<close> for an integer, as used by the f-string \<open>f"page_{n}"\<close>: decimal digits,
  most significant first, with a leading minus sign for a negative number.\<close>

definition digit_char :: "nat \<Rightarrow> nat" where
  "digit_char d = 48 + d"

fun str_nat :: "nat \<Rightarrow> pystr" where
  "str_nat n = (if n < 10 then [digit_char n] else str_nat (n div 10) @ [digit_char (n mod 10)])"

declare str_nat.simps [simp del]

definition str_int :: "int \<Rightarrow> pystr" where
  "str_int i = (if i < 0 then 45 # str_nat (nat (- i)) else str_nat (nat i))"

section \<open>Link manager (core/link\_manager.py)\<close>

text \<open>\<open>LinkInfo\<close>: \<open>adjusted_page\<close> is \<open>None\<close> until the offset is known.\<close>

record LinkInfo =
  original_page :: int
  adjusted_page :: "int option"

definition destination_name :: "LinkInfo \<Rightarrow> pystr" where
  "destination_name link =
     (let page = (case adjusted_page link of Some a \<Rightarrow> a | None \<Rightarrow> original_page link)
      in lit ''page_'' @ str_int page)"

text \<open>\<open>LinkManager\<close>: the offset and the registered records, in registration order.\<close>

record LinkManager =
  prepended_page_count :: int
  links :: "LinkInfo list"

definition LinkManager_init :: LinkManager where
  "LinkManager_init = \<lparr>prepended_page_count = 0, links = []\<rparr>"

text \<open>\<open>register_link\<close> appends a fresh record and returns it together with the manager.\<close>

definition register_link :: "int \<Rightarrow> LinkManager \<Rightarrow> LinkInfo \<times> LinkManager" where
  "register_link p m =
     (let link = \<lparr>original_page = p, adjusted_page = None\<rparr>
      in (link, m\<lparr>links := links m @ [link]\<rparr>))"

text \<open>\<open>_update_all_links\<close>: the loop over \<open>self._links\<close> assigns each record's
  \<open>adjusted_page\<close> in place.\<close>

fun update_links_loop :: "int \<Rightarrow> LinkInfo list \<Rightarrow> LinkInfo list" where
  "update_links_loop c [] = []"
| "update_links_loop c (link # rest) =
     link\<lparr>adjusted_page := Some (original_page link + c)\<rparr> # update_links_loop c rest"

definition update_all_links :: "LinkManager \<Rightarrow> LinkManager" where
  "update_all_links m = m\<lparr>links := update_links_loop (prepended_page_count m) (links m)\<rparr>"

definition set_prepended_page_count :: "int \<Rightarrow> LinkManager \<Rightarrow> LinkManager" where
  "set_prepended_page_count c m = update_all_links (m\<lparr>prepended_page_count := c\<rparr>)"

definition get_adjusted_page :: "LinkManager \<Rightarrow> int \<Rightarrow> int" where
  "get_adjusted_page m p = p + prepended_page_count m"

definition get_destination_name :: "LinkManager \<Rightarrow> int \<Rightarrow> pystr" where
  "get_destination_name m p = (let adjusted = get_adjusted_page m p in lit ''page_'' @ str_int adjusted)"

definition clear :: "LinkManager \<Rightarrow> LinkManager" where
  "clear m = m\<lparr>links := []\<rparr>"

definition link_count :: "LinkManager \<Rightarrow> nat" where
  "link_count m = length (links m)"

section \<open>Text formatter (parsers/text\_formatter.py)\<close>

subsection \<open>The string operations it uses\<close>

text \<open>\<open>s.startswith(p)\<close>, \<open>sub in s\<close>, \<open>s.replace(old, new, 1)\<close> and
  \<open>s.replace(old, new)\<close> (the last one is only called with a placeholder, which is not
  empty, as \<open>old\<close>).\<close>

definition startswith :: "pystr \<Rightarrow> pystr \<Rightarrow> bool" where
  "startswith s p = (take (length p) s = p)"

fun contains :: "pystr \<Rightarrow> pystr \<Rightarrow> bool" where
  "contains [] sub = (sub = [])"
| "contains (c # cs) sub = (startswith (c # cs) sub \<or> contains cs sub)"

fun replace_first :: "pystr \<Rightarrow> pystr \<Rightarrow> pystr \<Rightarrow> pystr" where
  "replace_first [] old new = (if old = [] then new else [])"
| "replace_first (c # cs) old new =
     (if startswith (c # cs) old then new @ drop (length old) (c # cs)
      else c # replace_first cs old new)"

fun replace_all :: "pystr \<Rightarrow> pystr \<Rightarrow> pystr \<Rightarrow> pystr" where
  "replace_all [] old new = []"
| "replace_all (c # cs) old new =
     (if startswith (c # cs) old then new @ replace_all (drop (length old - 1) cs) old new
      else c # replace_all cs old new)"

text \<open>\<open>html.escape(s, quote=False)\<close>: \<open>&\<close> first, then \<open><\<close>, then \<open>>\<close>.\<close>

definition replace_char :: "nat \<Rightarrow> pystr \<Rightarrow> pystr \<Rightarrow> pystr" where
  "replace_char c new s = concat (map (\<lambda>x. if x = c then new else [x]) s)"

definition html_escape :: "pystr \<Rightarrow> pystr" where
  "html_escape s =
     replace_char 62 (lit ''&gt;'') (replace_char 60 (lit ''&lt;'') (replace_char 38 (lit ''&amp;'') s))"

subsection \<open>The marker patterns\<close>

record TextFormatter =
  bold_marker :: pystr
  italic_marker :: pystr

definition TextFormatter_default :: TextFormatter where
  "TextFormatter_default = \<lparr>bold_marker = lit ''**'', italic_marker = lit ''_''\<rparr>"

definition escape_xml :: "pystr \<Rightarrow> pystr" where
  "escape_xml text = html_escape text"

text \<open>
  \<open>_compile_patterns\<close> builds, for a marker \<open>M\<close>, the regular expression
  \<open>M(.+?)M\<close> with \<open>M\<close> escaped, so matched literally. \<open>lazy_group marker rest\<close> is
  the group \<open>(.+?)\<close> on the text after the opening marker: the shortest run of one or
  more characters other than newline (code point 10) that the closing marker follows.
  \<open>match_at marker s\<close> is the match starting at the first character of \<open>s\<close>, if any,
  given by its group.
\<close>

fun lazy_group :: "pystr \<Rightarrow> pystr \<Rightarrow> pystr option" where
  "lazy_group marker [] = None"
| "lazy_group marker (c # cs) =
     (if c = 10 then None
      else if startswith cs marker then Some [c]
      else map_option ((#) c) (lazy_group marker cs))"

definition match_at :: "pystr \<Rightarrow> pystr \<Rightarrow> pystr option" where
  "match_at marker s =
     (if startswith s marker then lazy_group marker (drop (length marker) s) else None)"

text \<open>\<open>pattern.finditer(s)\<close>: the leftmost matches, none overlapping another, each with
  \<open>start()\<close>, \<open>end()\<close> and \<open>group(1)\<close>. A match has at least one character.\<close>

record re_match =
  m_start :: nat
  m_end :: nat
  m_group1 :: pystr

fun finditer_from :: "pystr \<Rightarrow> nat \<Rightarrow> pystr \<Rightarrow> re_match list" where
  "finditer_from marker pos [] = []"
| "finditer_from marker pos (c # cs) =
     (case match_at marker (c # cs) of
        None \<Rightarrow> finditer_from marker (pos + 1) cs
      | Some g \<Rightarrow>
          \<lparr>m_start = pos, m_end = pos + (2 * length marker + length g), m_group1 = g\<rparr>
            # finditer_from marker (pos + (2 * length marker + length g))
                (drop (2 * length marker + length g - 1) cs))"

definition finditer :: "pystr \<Rightarrow> pystr \<Rightarrow> re_match list" where
  "finditer marker s = finditer_from marker 0 s"

text \<open>\<open>pattern.sub(r"<b>\1</b>", s)\<close>, with the two tags as parameters.\<close>

fun re_sub :: "pystr \<Rightarrow> pystr \<Rightarrow> pystr \<Rightarrow> pystr \<Rightarrow> pystr" where
  "re_sub marker otag ctag [] = []"
| "re_sub marker otag ctag (c # cs) =
     (case match_at marker (c # cs) of
        None \<Rightarrow> c # re_sub marker otag ctag cs
      | Some g \<Rightarrow>
          otag @ g @ ctag @ re_sub marker otag ctag (drop (2 * length marker + length g - 1) cs))"

subsection \<open>\<open>format_text\<close>\<close>

text \<open>The placeholders \<open>"\x00BOLD\x00"\<close> and \<open>"\x00ITALIC\x00"\<close>.\<close>

definition bold_placeholder :: pystr where
  "bold_placeholder = 0 # lit ''BOLD'' @ [0]"

definition italic_placeholder :: pystr where
  "italic_placeholder = 0 # lit ''ITALIC'' @ [0]"

text \<open>The loop \<open>for match in reversed(matches)\<close>: each match, last one first, is replaced
  in \<open>result\<close> by its escaped group between two placeholders.\<close>

fun placeholder_matches :: "pystr \<Rightarrow> re_match list \<Rightarrow> pystr \<Rightarrow> pystr" where
  "placeholder_matches ph [] result = result"
| "placeholder_matches ph (m # ms) result =
     placeholder_matches ph ms
       (take (m_start m) result @ (ph @ escape_xml (m_group1 m) @ ph) @ drop (m_end m) result)"

text \<open>\<open>re.split\<close> on the pattern \<open>(\x00BOLD\x00|\x00ITALIC\x00)\<close>: the group makes the
  separators part of the result, between the pieces of text.\<close>

fun re_split_from :: "pystr \<Rightarrow> pystr \<Rightarrow> pystr list" where
  "re_split_from cur [] = [cur]"
| "re_split_from cur (c # cs) =
     (if startswith (c # cs) bold_placeholder then
        cur # bold_placeholder # re_split_from [] (drop (length bold_placeholder - 1) cs)
      else if startswith (c # cs) italic_placeholder then
        cur # italic_placeholder # re_split_from [] (drop (length italic_placeholder - 1) cs)
      else re_split_from (cur @ [c]) cs)"

definition re_split :: "pystr \<Rightarrow> pystr list" where
  "re_split s = re_split_from [] s"

text \<open>The loop over \<open>parts\<close>, with the flags \<open>in_bold\<close> and \<open>in_italic\<close>; it returns
  \<open>escaped_parts\<close>.\<close>

fun escape_parts :: "bool \<Rightarrow> bool \<Rightarrow> pystr list \<Rightarrow> pystr list" where
  "escape_parts in_bold in_italic [] = []"
| "escape_parts in_bold in_italic (part # parts) =
     (if part = bold_placeholder then part # escape_parts (\<not> in_bold) in_italic parts
      else if part = italic_placeholder then part # escape_parts in_bold (\<not> in_italic) parts
      else if in_bold \<or> in_italic then part # escape_parts in_bold in_italic parts
      else escape_xml part # escape_parts in_bold in_italic parts)"

text \<open>
  The conversion of placeholders to tags is written twice in the source, for bold and for
  italic, with the same shape; the flag \<open>bold\<close> selects the placeholder and its tags.
  \<open>close_open_loop\<close> is the \<open>while placeholder in result\<close> loop: a closing tag, then an
  opening tag if a placeholder is left. Each replacement shortens the text, so the loop ends.
\<close>

definition placeholder :: "bool \<Rightarrow> pystr" where
  "placeholder bold = (if bold then bold_placeholder else italic_placeholder)"

definition open_tag :: "bool \<Rightarrow> pystr" where
  "open_tag bold = (if bold then lit ''<b>'' else lit ''<i>'')"

definition close_tag :: "bool \<Rightarrow> pystr" where
  "close_tag bold = (if bold then lit ''</b>'' else lit ''</i>'')"

lemma startswith_length: "startswith s p \<Longrightarrow> length p \<le> length s"
proof -
  assume "startswith s p"
  then have "length (take (length p) s) = length p"
    by (simp add: startswith_def)
  then show ?thesis by simp
qed

lemma length_replace_first:
  "contains s old \<Longrightarrow> length (replace_first s old new) + length old = length s + length new"
proof (induction s)
  case Nil
  then show ?case by simp
next
  case (Cons c cs)
  show ?case
  proof (cases "startswith (c # cs) old")
    case True
    then show ?thesis using startswith_length [OF True] by simp
  next
    case False
    with Cons show ?thesis by simp
  qed
qed

lemma tags_shorter_than_placeholder:
  "length (close_tag bold) < length (placeholder bold)"
  "length (open_tag bold) < length (placeholder bold)"
  by (simp_all add: close_tag_def open_tag_def placeholder_def bold_placeholder_def
      italic_placeholder_def lit_def)

function close_open_loop :: "bool \<Rightarrow> pystr \<Rightarrow> pystr" where
  "close_open_loop bold result =
     (if contains result (placeholder bold) then
        (let result1 = replace_first result (placeholder bold) (close_tag bold) in
           if contains result1 (placeholder bold)
           then close_open_loop bold (replace_first result1 (placeholder bold) (open_tag bold))
           else close_open_loop bold result1)
      else result)"
  by pat_completeness auto
termination
proof (relation "measure (\<lambda>(bold, result). length result)")
  show "wf (measure (\<lambda>(bold, result). length result))" by simp
next
  fix bold result result1
  assume c: "contains result (placeholder bold)"
    and r1: "result1 = replace_first result (placeholder bold) (close_tag bold)"
    and c1: "contains result1 (placeholder bold)"
  have a: "length result1 + length (placeholder bold) = length result + length (close_tag bold)"
    using length_replace_first [OF c] r1 by simp
  have b: "length (replace_first result1 (placeholder bold) (open_tag bold))
      + length (placeholder bold) = length result1 + length (open_tag bold)"
    using length_replace_first [OF c1] by simp
  from a b tags_shorter_than_placeholder [of bold]
  show "((bold, replace_first result1 (placeholder bold) (open_tag bold)), (bold, result))
      \<in> measure (\<lambda>(bold, result). length result)"
    by simp
next
  fix bold result result1
  assume c: "contains result (placeholder bold)"
    and r1: "result1 = replace_first result (placeholder bold) (close_tag bold)"
  have a: "length result1 + length (placeholder bold) = length result + length (close_tag bold)"
    using length_replace_first [OF c] r1 by simp
  from a tags_shorter_than_placeholder [of bold]
  show "((bold, result1), (bold, result)) \<in> measure (\<lambda>(bold, result). length result)"
    by simp
qed

declare close_open_loop.simps [simp del]

definition placeholders_to_tags :: "bool \<Rightarrow> bool \<Rightarrow> pystr \<Rightarrow> pystr" where
  "placeholders_to_tags bold apply_it result =
     (if apply_it
      then close_open_loop bold (replace_first result (placeholder bold) (open_tag bold))
      else replace_all result (placeholder bold) [])"

text \<open>\<open>format_text(text, escape_first, apply_bold, apply_italic)\<close>; all three flags
  default to \<open>True\<close>.\<close>

definition format_text :: "TextFormatter \<Rightarrow> pystr \<Rightarrow> bool \<Rightarrow> bool \<Rightarrow> bool \<Rightarrow> pystr" where
  "format_text fmt text escape_first apply_bold apply_italic =
     (if escape_first then
        (let bold_matches = finditer (bold_marker fmt) text;
             result1 = placeholder_matches bold_placeholder (rev bold_matches) text;
             italic_matches = finditer (italic_marker fmt) result1;
             result2 = placeholder_matches italic_placeholder (rev italic_matches) result1;
             parts = re_split result2;
             escaped_parts = escape_parts False False parts;
             result3 = concat escaped_parts;
             result4 = placeholders_to_tags True apply_bold result3
         in placeholders_to_tags False apply_italic result4)
      else
        (let result1 = (if apply_bold
                        then re_sub (bold_marker fmt) (lit ''<b>'') (lit ''</b>'') text else text)
         in if apply_italic
            then re_sub (italic_marker fmt) (lit ''<i>'') (lit ''</i>'') result1 else result1))"

definition apply_style :: "pystr \<Rightarrow> bool \<Rightarrow> bool \<Rightarrow> pystr" where
  "apply_style text bold italic =
     (let result = (if bold then lit ''<b>'' @ text @ lit ''</b>'' else text)
      in if italic then lit ''<i>'' @ result @ lit ''</i>'' else result)"

text \<open>\<open>s.count(sub)\<close> for a non-empty \<open>sub\<close>: the occurrences of \<open>sub\<close> in \<open>s\<close>, none
  overlapping another. It states how many regions the formatted text has.\<close>

fun count_str :: "pystr \<Rightarrow> pystr \<Rightarrow> nat" where
  "count_str [] sub = 0"
| "count_str (c # cs) sub =
     (if startswith (c # cs) sub then Suc (count_str (drop (length sub - 1) cs) sub)
      else count_str cs sub)"

section \<open>The prepend specification (models/schema.py)\<close>

datatype OverflowBehavior = NO_WRAP | WRAP | WRAP_WITH_PAGE_BREAK

datatype Alignment = LEFT | CENTER | RIGHT | JUSTIFY

datatype PageSize = LETTER | A4 | LEGAL

record Defaults =
  d_font_size :: int
  d_bold_marker :: pystr
  d_italic_marker :: pystr
  d_page_size :: PageSize
  d_left_margin :: real
  d_right_margin :: real
  d_top_margin :: real
  d_bottom_margin :: real

text \<open>\<open>PageHeading\<close>, \<open>SectionHeading\<close> and \<open>SectionSubheading\<close> have the same fields:
  \<open>text\<close>, \<open>font_size\<close>, \<open>bold\<close>, \<open>italic\<close>, \<open>alignment\<close>.\<close>

record HeadingFields =
  h_text :: pystr
  h_font_size :: "int option"
  h_bold :: bool
  h_italic :: bool
  h_alignment :: Alignment

record LinkableItem =
  item_text :: pystr
  item_target_page :: int

text \<open>An entry of \<open>content: list[str | LinkableItem]\<close>.\<close>

datatype ContentItem = Str pystr | Linkable LinkableItem

text \<open>\<open>BulletPoint\<close> and \<open>IndentedBulletPoint\<close> have the same fields: \<open>label\<close>,
  \<open>content\<close>, \<open>font_size\<close>, \<open>overflow_behavior\<close>.\<close>

record BulletFields =
  b_label :: pystr
  b_content :: "ContentItem list"
  b_font_size :: "int option"
  b_overflow_behavior :: OverflowBehavior

datatype ContentElement =
  SectionHeading HeadingFields
| SectionSubheading HeadingFields
| BulletPoint BulletFields
| IndentedBulletPoint BulletFields

record Page =
  page_heading :: "HeadingFields option"
  page_content :: "ContentElement list"

record PrependSpecification =
  spec_defaults :: Defaults
  spec_pages :: "Page list"

section \<open>Page generator (core/page\_generator.py)\<close>

text \<open>\<open>LinkPosition\<close>; the fields \<open>x\<close>, \<open>y\<close>, \<open>width\<close>, \<open>height\<close> are \<open>pos_x\<close>, \<open>pos_y\<close>,
  \<open>pos_width\<close>, \<open>pos_height\<close> here. Coordinates are Python floats; they are modelled as
  real numbers, so rounding, infinities and NaN are left out.\<close>

record LinkPosition =
  page_index :: int
  target_page :: int
  link_text :: pystr
  pos_x :: real
  pos_y :: real
  pos_width :: real
  pos_height :: real

text \<open>The \<open>LinkInfo\<close> of this module (not the one of the link manager): a link's text,
  adjusted target page and character range in the plain text.\<close>

record ParaLinkInfo =
  li_text :: pystr
  li_target_page :: int
  char_start :: int
  char_end :: int

text \<open>Paragraph styles are values handed to the layout engine; only the way
  \<open>_get_style\<close> and the no-wrap branch derive one from another is kept.\<close>

datatype ParagraphStyle =
  BaseStyle string
| ModifiedStyle string "int option" Alignment
| NoWrapStyle string ParagraphStyle

definition get_style :: "string \<Rightarrow> int option \<Rightarrow> Alignment \<Rightarrow> ParagraphStyle" where
  "get_style base_style_name font_size alignment =
     (if font_size = None \<and> alignment = LEFT then BaseStyle base_style_name
      else ModifiedStyle base_style_name font_size alignment)"

text \<open>The flowables the generator creates. \<open>LinkTrackingParagraph\<close> carries the formatted
  text, its links, its style and the plain text.\<close>

datatype Flowable =
  Paragraph pystr ParagraphStyle
| LinkTrackingParagraph pystr "ParaLinkInfo list" ParagraphStyle pystr
| KeepTogether "Flowable list"
| Spacer
| PageBreak

text \<open>
  What the layout engine reports when it draws a paragraph: the canvas's page number
  (\<open>getPageNumber()\<close>), the absolute position of the paragraph's origin
  (\<open>absolutePosition(0, 0)\<close>) and the paragraph's wrapped width and height.
\<close>

record Placement =
  canv_page_number :: int
  canv_x :: real
  canv_y :: real
  para_width :: real
  para_height :: real

text \<open>\<open>LinkTrackingParagraph.draw\<close>: the loop over \<open>self.links\<close> appends one
  \<open>LinkPosition\<close> for each link to the shared list \<open>link_positions\<close>.\<close>

fun draw_links_loop ::
  "int \<Rightarrow> real \<Rightarrow> real \<Rightarrow> real \<Rightarrow> real \<Rightarrow> ParaLinkInfo list \<Rightarrow> LinkPosition list
   \<Rightarrow> LinkPosition list" where
  "draw_links_loop page_idx x y avg_char_width height [] link_positions = link_positions"
| "draw_links_loop page_idx x y avg_char_width height (link_info # rest) link_positions =
     (let link_x = x + real_of_int (char_start link_info) * avg_char_width;
          link_width = real_of_int (char_end link_info - char_start link_info) * avg_char_width;
          link_width = max link_width 20
      in draw_links_loop page_idx x y avg_char_width height rest
           (link_positions @
              [\<lparr>page_index = page_idx, target_page = li_target_page link_info,
                link_text = li_text link_info, pos_x = link_x, pos_y = y,
                pos_width = link_width, pos_height = height\<rparr>]))"

definition draw ::
  "Placement \<Rightarrow> ParaLinkInfo list \<Rightarrow> pystr \<Rightarrow> LinkPosition list \<Rightarrow> LinkPosition list" where
  "draw pl link_infos plain_text link_positions =
     (if link_infos \<noteq> [] then
        (let page_idx = canv_page_number pl - 1;
             x = canv_x pl;
             y = canv_y pl;
             plain_len = (if plain_text \<noteq> [] then int (length plain_text) else 1);
             avg_char_width = para_width pl / real_of_int (max plain_len 1)
         in draw_links_loop page_idx x y avg_char_width (para_height pl) link_infos link_positions)
      else link_positions)"

text \<open>\<open>_build_page_heading\<close>, \<open>_build_section_heading\<close>, \<open>_build_section_subheading\<close>.\<close>

definition build_page_heading :: "HeadingFields \<Rightarrow> Flowable list" where
  "build_page_heading heading =
     (let style = get_style ''PrependPageHeading'' (h_font_size heading) (h_alignment heading);
          t = escape_xml (h_text heading);
          t = apply_style t (h_bold heading) (h_italic heading)
      in [Paragraph t style, Spacer])"

definition build_section_heading :: "TextFormatter \<Rightarrow> HeadingFields \<Rightarrow> Flowable list" where
  "build_section_heading fmt element =
     (let style = get_style ''PrependSectionHeading'' (h_font_size element) (h_alignment element);
          t = format_text fmt (h_text element) True True True;
          t = (if h_bold element then lit ''<b>'' @ t @ lit ''</b>'' else t);
          t = (if h_italic element then lit ''<i>'' @ t @ lit ''</i>'' else t)
      in [Paragraph t style])"

definition build_section_subheading :: "TextFormatter \<Rightarrow> HeadingFields \<Rightarrow> Flowable list" where
  "build_section_subheading fmt element =
     (let style = get_style ''PrependSectionSubheading'' (h_font_size element) (h_alignment element);
          t = format_text fmt (h_text element) True True True;
          t = (if h_bold element then lit ''<b>'' @ t @ lit ''</b>'' else t);
          t = (if h_italic element then lit ''<i>'' @ t @ lit ''</i>'' else t)
      in [Paragraph t style])"

text \<open>
  \<open>_build_content_items\<close>. The loop's variables are \<open>formatted_parts\<close>, \<open>plain_parts\<close>,
  \<open>links\<close> (here \<open>link_infos\<close>) and \<open>current_pos\<close>; \<open>i\<close> is the index that \<open>enumerate\<close>
  gives. The branch for a \<open>dict\<close> item is left out: the type of \<open>content\<close> is
  \<open>list[str | LinkableItem]\<close>, and validation turns a mapping into a \<open>LinkableItem\<close>.
\<close>

record ItemsState =
  formatted_parts :: "pystr list"
  plain_parts :: "pystr list"
  link_infos :: "ParaLinkInfo list"
  current_pos :: int

definition link_markup :: "pystr \<Rightarrow> pystr" where
  "link_markup escaped_text =
     lit ''<font color='' @ [34] @ lit ''blue'' @ [34] @ lit ''><u>'' @ escaped_text
       @ lit ''</u></font>''"

fun content_items_loop ::
  "LinkManager \<Rightarrow> TextFormatter \<Rightarrow> nat \<Rightarrow> ContentItem list \<Rightarrow> ItemsState \<Rightarrow> ItemsState" where
  "content_items_loop lm fmt i [] st = st"
| "content_items_loop lm fmt i (item # rest) st =
     (let st1 = (if i > 0
                 then st\<lparr>formatted_parts := formatted_parts st @ [lit '', ''],
                         plain_parts := plain_parts st @ [lit '', ''],
                         current_pos := current_pos st + 2\<rparr>
                 else st);
          st2 = (case item of
                   Linkable it \<Rightarrow>
                     (let adjusted_page = get_adjusted_page lm (item_target_page it);
                          escaped_text = escape_xml (item_text it)
                      in st1\<lparr>formatted_parts := formatted_parts st1 @ [link_markup escaped_text],
                              plain_parts := plain_parts st1 @ [item_text it],
                              link_infos := link_infos st1 @
                                [\<lparr>li_text = item_text it, li_target_page = adjusted_page,
                                  char_start = current_pos st1,
                                  char_end = current_pos st1 + int (length (item_text it))\<rparr>],
                              current_pos := current_pos st1 + int (length (item_text it))\<rparr>)
                 | Str t \<Rightarrow>
                     st1\<lparr>formatted_parts := formatted_parts st1 @ [format_text fmt t True True True],
                          plain_parts := plain_parts st1 @ [t],
                          current_pos := current_pos st1 + int (length t)\<rparr>)
      in content_items_loop lm fmt (i + 1) rest st2)"

definition build_content_items ::
  "LinkManager \<Rightarrow> TextFormatter \<Rightarrow> ContentItem list \<Rightarrow> pystr \<times> ParaLinkInfo list \<times> pystr" where
  "build_content_items lm fmt content =
     (let st = content_items_loop lm fmt 0 content
                 \<lparr>formatted_parts = [], plain_parts = [], link_infos = [], current_pos = 0\<rparr>
      in (concat (formatted_parts st), link_infos st, concat (plain_parts st)))"

text \<open>\<open>_strip_xml_tags\<close>: \<open>re.sub(r'<[^>]+>', '', ...)\<close> on the formatted text. A tag is
  \<open><\<close>, one or more characters other than \<open>>\<close>, and \<open>>\<close>.\<close>

function remove_tags :: "pystr \<Rightarrow> pystr" where
  "remove_tags [] = []"
| "remove_tags (c # cs) =
     (if c = 60 \<and> takeWhile (\<lambda>x. x \<noteq> 62) cs \<noteq> [] \<and> dropWhile (\<lambda>x. x \<noteq> 62) cs \<noteq> []
      then remove_tags (tl (dropWhile (\<lambda>x. x \<noteq> 62) cs))
      else c # remove_tags cs)"
  by pat_completeness auto
termination
proof (relation "measure length")
  show "wf (measure length)" by simp
next
  fix c :: nat and cs :: pystr
  have "length (dropWhile (\<lambda>x. x \<noteq> 62) cs) \<le> length cs"
    by (rule length_dropWhile_le)
  then show "(tl (dropWhile (\<lambda>x. x \<noteq> 62) cs), c # cs) \<in> measure length"
    by simp
next
  fix c :: nat and cs :: pystr
  show "(cs, c # cs) \<in> measure length" by simp
qed

definition strip_xml_tags :: "TextFormatter \<Rightarrow> pystr \<Rightarrow> pystr" where
  "strip_xml_tags fmt t = remove_tags (format_text fmt t True True True)"

text \<open>\<open>_build_bullet_point\<close>. The bullet glyph is U+2022 (code point 8226).\<close>

definition bullet_prefix_of :: "pystr \<Rightarrow> pystr" where
  "bullet_prefix_of plain_label = [8226, 32] @ plain_label @ [32]"

definition build_bullet_point ::
  "LinkManager \<Rightarrow> TextFormatter \<Rightarrow> BulletFields \<Rightarrow> bool \<Rightarrow> Flowable list" where
  "build_bullet_point lm fmt element indented =
     (let style_name = (if indented then ''PrependIndentedBullet'' else ''PrependBullet'');
          style = get_style style_name (b_font_size element) LEFT;
          label = format_text fmt (b_label element) True True True;
          plain_label = strip_xml_tags fmt (b_label element);
          (content_str, lnks, plain_content) = build_content_items lm fmt (b_content element);
          bullet_text = [8226, 32] @ label @ [32] @ content_str;
          bullet_prefix = bullet_prefix_of plain_label;
          plain_text = bullet_prefix @ plain_content;
          prefix_len = int (length bullet_prefix);
          adjusted_links =
            map (\<lambda>l. \<lparr>li_text = li_text l, li_target_page = li_target_page l,
                       char_start = char_start l + prefix_len,
                       char_end = char_end l + prefix_len\<rparr>) lnks;
          flowable = (if adjusted_links \<noteq> []
                      then LinkTrackingParagraph bullet_text adjusted_links style plain_text
                      else Paragraph bullet_text style)
      in if b_overflow_behavior element = WRAP_WITH_PAGE_BREAK then [KeepTogether [flowable]]
         else if b_overflow_behavior element = NO_WRAP then
           (let no_wrap_style = NoWrapStyle (style_name @ ''_nowrap'') style
            in if adjusted_links \<noteq> []
               then [LinkTrackingParagraph bullet_text adjusted_links no_wrap_style plain_text]
               else [Paragraph bullet_text no_wrap_style])
         else [flowable])"

fun build_content_element :: "LinkManager \<Rightarrow> TextFormatter \<Rightarrow> ContentElement \<Rightarrow> Flowable list" where
  "build_content_element lm fmt (SectionHeading element) = build_section_heading fmt element"
| "build_content_element lm fmt (SectionSubheading element) = build_section_subheading fmt element"
| "build_content_element lm fmt (BulletPoint element) = build_bullet_point lm fmt element False"
| "build_content_element lm fmt (IndentedBulletPoint element) = build_bullet_point lm fmt element True"

definition build_page :: "LinkManager \<Rightarrow> TextFormatter \<Rightarrow> Page \<Rightarrow> bool \<Rightarrow> Flowable list" where
  "build_page lm fmt page is_first =
     (if \<not> is_first then [PageBreak] else [])
     @ (case page_heading page of Some heading \<Rightarrow> build_page_heading heading | None \<Rightarrow> [])
     @ concat (map (build_content_element lm fmt) (page_content page))"

text \<open>The loop of \<open>generate\<close> over \<open>enumerate(self.spec.pages)\<close>.\<close>

fun build_pages_loop :: "LinkManager \<Rightarrow> TextFormatter \<Rightarrow> nat \<Rightarrow> Page list \<Rightarrow> Flowable list" where
  "build_pages_loop lm fmt i [] = []"
| "build_pages_loop lm fmt i (page # rest) =
     build_page lm fmt page (i = 0) @ build_pages_loop lm fmt (i + 1) rest"

text \<open>
  The layout engine (ReportLab) is outside the repository. \<open>doc.build(flowables)\<close> is
  taken to draw every flowable once, in order, a \<open>KeepTogether\<close> by drawing what it holds;
  a plain paragraph, a spacer and a page break record nothing. The engine's choices are
  parameters: \<open>place\<close> gives the placement of the \<open>i\<close>-th flowable, \<open>doc_page\<close> the page
  count and \<open>doc_bytes\<close> the rendered pages.
\<close>

record 'p LayoutEngine =
  place :: "Defaults \<Rightarrow> Flowable list \<Rightarrow> nat \<Rightarrow> Placement"
  doc_page :: "Defaults \<Rightarrow> Flowable list \<Rightarrow> int"
  doc_bytes :: "Defaults \<Rightarrow> Flowable list \<Rightarrow> 'p list"

fun draw_flowable :: "Placement \<Rightarrow> Flowable \<Rightarrow> LinkPosition list \<Rightarrow> LinkPosition list" where
  "draw_flowable pl (LinkTrackingParagraph t lnks style plain_text) link_positions =
     draw pl lnks plain_text link_positions"
| "draw_flowable pl (KeepTogether fs) link_positions = fold (draw_flowable pl) fs link_positions"
| "draw_flowable pl (Paragraph t style) link_positions = link_positions"
| "draw_flowable pl Spacer link_positions = link_positions"
| "draw_flowable pl PageBreak link_positions = link_positions"

fun doc_build ::
  "(nat \<Rightarrow> Placement) \<Rightarrow> nat \<Rightarrow> Flowable list \<Rightarrow> LinkPosition list \<Rightarrow> LinkPosition list" where
  "doc_build pl i [] link_positions = link_positions"
| "doc_build pl i (f # fs) link_positions =
     doc_build pl (i + 1) fs (draw_flowable (pl i) f link_positions)"

text \<open>
  Objects that are shared by reference live in a store: the address of a \<open>LinkManager\<close>
  is its index. \<open>new_LinkManager\<close> is the constructor call \<open>LinkManager()\<close>.
\<close>

type_synonym ref = nat

type_synonym store = "LinkManager list"

definition new_LinkManager :: "store \<Rightarrow> ref \<times> store" where
  "new_LinkManager s = (length s, s @ [LinkManager_init])"

record PageGenerator =
  pg_spec :: PrependSpecification
  pg_defaults :: Defaults
  pg_link_manager :: ref
  pg_text_formatter :: TextFormatter
  pg_link_positions :: "LinkPosition list"

definition PageGenerator_init :: "PrependSpecification \<Rightarrow> ref \<Rightarrow> PageGenerator" where
  "PageGenerator_init spec link_manager =
     \<lparr>pg_spec = spec, pg_defaults = spec_defaults spec, pg_link_manager = link_manager,
      pg_text_formatter = \<lparr>bold_marker = d_bold_marker (spec_defaults spec),
                            italic_marker = d_italic_marker (spec_defaults spec)\<rparr>,
      pg_link_positions = []\<rparr>"

text \<open>\<open>generate\<close> returns \<open>(PDF bytes, page count, link positions)\<close>; the generator's own
  list of link positions is cleared first and filled by the drawing. The link manager is
  only read.\<close>

definition generate ::
  "'p LayoutEngine \<Rightarrow> PageGenerator \<Rightarrow> store
   \<Rightarrow> ('p list \<times> int \<times> LinkPosition list) \<times> PageGenerator" where
  "generate E g s =
     (let g1 = g\<lparr>pg_link_positions := []\<rparr>;
          flowables = build_pages_loop (s ! pg_link_manager g1) (pg_text_formatter g1) 0
                        (spec_pages (pg_spec g1));
          g2 = g1\<lparr>pg_link_positions :=
                    doc_build (place E (pg_defaults g1) flowables) 0 flowables (pg_link_positions g1)\<rparr>;
          page_count = doc_page E (pg_defaults g2) flowables
      in ((doc_bytes E (pg_defaults g2) flowables, page_count, pg_link_positions g2), g2))"

section \<open>PDF merger (core/pdf\_merger.py)\<close>

text \<open>
  The writer of the PDF library is outside the repository. What is kept of it: the pages
  in the order \<open>add_page\<close> was called, the named destinations (title and 0-based page
  number) in the order \<open>add_named_destination\<close> was called, and the link annotations added.
  The readers deliver the pages of their documents; a page is a value of any type \<open>'p\<close>.
  \<open>add_annotation\<close> may raise, and the source swallows the exception: \<open>accepts\<close> tells
  whether it succeeds.
\<close>

record LinkAnnotation =
  ann_rect :: "real \<times> real \<times> real \<times> real"
  ann_target_page_index :: int

record 'p PdfWriter =
  writer_pages :: "'p list"
  writer_destinations :: "(pystr \<times> int) list"
  writer_annotations :: "(int \<times> LinkAnnotation) list"

definition PdfWriter_init :: "'p PdfWriter" where
  "PdfWriter_init = \<lparr>writer_pages = [], writer_destinations = [], writer_annotations = []\<rparr>"

definition add_page :: "'p \<Rightarrow> 'p PdfWriter \<Rightarrow> 'p PdfWriter" where
  "add_page page w = w\<lparr>writer_pages := writer_pages w @ [page]\<rparr>"

definition add_named_destination :: "pystr \<Rightarrow> int \<Rightarrow> 'p PdfWriter \<Rightarrow> 'p PdfWriter" where
  "add_named_destination title page_number w =
     w\<lparr>writer_destinations := writer_destinations w @ [(title, page_number)]\<rparr>"

text \<open>The loops \<open>for page in reader.pages: self.writer.add_page(page)\<close> and
  \<open>for i in range(total_pages)\<close>.\<close>

fun add_pages_loop :: "'p list \<Rightarrow> 'p PdfWriter \<Rightarrow> 'p PdfWriter" where
  "add_pages_loop [] w = w"
| "add_pages_loop (page # rest) w = add_pages_loop rest (add_page page w)"

fun named_destinations_loop :: "nat list \<Rightarrow> 'p PdfWriter \<Rightarrow> 'p PdfWriter" where
  "named_destinations_loop [] w = w"
| "named_destinations_loop (i # rest) w =
     (let dest_name = lit ''page_'' @ str_int (int i + 1)
      in named_destinations_loop rest (add_named_destination dest_name (int i) w))"

text \<open>\<open>_add_link_annotations\<close>.\<close>

fun add_link_annotations ::
  "(int \<Rightarrow> LinkAnnotation \<Rightarrow> bool) \<Rightarrow> LinkPosition list \<Rightarrow> 'p PdfWriter \<Rightarrow> 'p PdfWriter" where
  "add_link_annotations accepts [] w = w"
| "add_link_annotations accepts (link_pos # rest) w =
     (let page_idx = page_index link_pos;
          target_page_idx = target_page link_pos - 1
      in if page_idx \<ge> int (length (writer_pages w)) then add_link_annotations accepts rest w
         else if target_page_idx < 0 \<or> target_page_idx \<ge> int (length (writer_pages w))
         then add_link_annotations accepts rest w
         else
           (let rect = (pos_x link_pos, pos_y link_pos, pos_x link_pos + pos_width link_pos,
                        pos_y link_pos + pos_height link_pos);
                link_annotation = \<lparr>ann_rect = rect, ann_target_page_index = target_page_idx\<rparr>
            in if accepts page_idx link_annotation
               then add_link_annotations accepts rest
                      (w\<lparr>writer_annotations := writer_annotations w @ [(page_idx, link_annotation)]\<rparr>)
               else add_link_annotations accepts rest w))"

text \<open>\<open>merge_with_destinations_and_links\<close>, up to the writing of the output: it returns
  the writer. \<open>if link_positions:\<close> is false for \<open>None\<close> and for an empty list.\<close>

definition merge_with_destinations_and_links ::
  "(int \<Rightarrow> LinkAnnotation \<Rightarrow> bool) \<Rightarrow> 'p list \<Rightarrow> 'p list \<Rightarrow> LinkPosition list option
   \<Rightarrow> 'p PdfWriter" where
  "merge_with_destinations_and_links accepts prepend_pages original_pages link_positions =
     (let w = PdfWriter_init;
          prepend_count = length prepend_pages;
          original_count = length original_pages;
          w = add_pages_loop prepend_pages w;
          w = add_pages_loop original_pages w;
          total_pages = prepend_count + original_count;
          w = named_destinations_loop [0..<total_pages] w
      in case link_positions of
           None \<Rightarrow> w
         | Some lps \<Rightarrow> if lps \<noteq> [] then add_link_annotations accepts lps w else w)"

definition merge_with_destinations ::
  "(int \<Rightarrow> LinkAnnotation \<Rightarrow> bool) \<Rightarrow> 'p list \<Rightarrow> 'p list \<Rightarrow> 'p PdfWriter" where
  "merge_with_destinations accepts prepend_pages original_pages =
     merge_with_destinations_and_links accepts prepend_pages original_pages None"

section \<open>Link annotator (core/link\_annotator.py)\<close>

text \<open>A rectangle of the annotation library, \<open>Rect(x0, y0, x1, y1)\<close>, in its coordinates
  (origin at the top left).\<close>

record Rect =
  rect_x0 :: real
  rect_y0 :: real
  rect_x1 :: real
  rect_y1 :: real

text \<open>The dictionary that \<open>_add_link\<close> hands to \<open>insert_link\<close>.\<close>

datatype LinkKind = LINK_GOTO

record LinkDict =
  ld_kind :: LinkKind
  ld_from :: Rect
  ld_page :: int
  ld_to :: "real \<times> real"

text \<open>
  The annotation library (PyMuPDF) is outside the repository. A document is the list of
  its pages, a page a value of any type \<open>'p\<close>. The engine gives: the rectangles that
  \<open>page.search_for(text)\<close> returns, or an exception, which the source does not catch;
  \<open>page.rect.height\<close>; and \<open>page.insert_link(link_dict)\<close>, the page with the link, or
  \<open>None\<close> when it raises (the source catches that exception and goes on).
\<close>

datatype engine_error = EngineError

record 'p AnnotationEngine =
  search_for :: "'p \<Rightarrow> pystr \<Rightarrow> engine_error + Rect list"
  page_rect_height :: "'p \<Rightarrow> real"
  insert_link :: "'p \<Rightarrow> LinkDict \<Rightarrow> 'p option"

text \<open>\<open>_find_text_rect\<close>. The loop over \<open>text_instances\<close> keeps \<open>best_rect\<close> (initially
  \<open>None\<close>) and \<open>best_distance\<close> (initially \<open>float("inf")\<close>, here \<open>None\<close>: every
  distance is less than it).\<close>

definition less_than_best :: "real \<Rightarrow> real option \<Rightarrow> bool" where
  "less_than_best distance best_distance =
     (case best_distance of None \<Rightarrow> True | Some b \<Rightarrow> distance < b)"

fun closest_loop ::
  "real \<Rightarrow> Rect list \<Rightarrow> Rect option \<times> real option \<Rightarrow> Rect option \<times> real option" where
  "closest_loop estimated_y [] (best_rect, best_distance) = (best_rect, best_distance)"
| "closest_loop estimated_y (rect # rest) (best_rect, best_distance) =
     (let distance = \<bar>rect_y1 rect - estimated_y\<bar>
      in if less_than_best distance best_distance
         then closest_loop estimated_y rest (Some rect, Some distance)
         else closest_loop estimated_y rest (best_rect, best_distance))"

definition find_text_rect ::
  "'p AnnotationEngine \<Rightarrow> 'p \<Rightarrow> LinkPosition \<Rightarrow> engine_error + Rect option" where
  "find_text_rect E page link_pos =
     (if link_text link_pos = [] then Inr None
      else case search_for E page (link_text link_pos) of
             Inl e \<Rightarrow> Inl e
           | Inr text_instances \<Rightarrow>
               if text_instances = [] then Inr None
               else if length text_instances = 1 then Inr (Some (text_instances ! 0))
               else
                 (let page_height = page_rect_height E page;
                      estimated_y = page_height - pos_y link_pos
                  in Inr (fst (closest_loop estimated_y text_instances (None, None)))))"

text \<open>\<open>_get_estimated_rect\<close>.\<close>

definition get_estimated_rect :: "'p AnnotationEngine \<Rightarrow> 'p \<Rightarrow> LinkPosition \<Rightarrow> Rect" where
  "get_estimated_rect E page link_pos =
     (let page_height = page_rect_height E page;
          x0 = pos_x link_pos;
          y0 = page_height - (pos_y link_pos + pos_height link_pos);
          x1 = pos_x link_pos + pos_width link_pos;
          y1 = page_height - pos_y link_pos
      in \<lparr>rect_x0 = x0, rect_y0 = y0, rect_x1 = x1, rect_y1 = y1\<rparr>)"

text \<open>The rectangle that \<open>_add_link\<close> uses: the one found by the text search, or the
  estimated one when \<open>_find_text_rect\<close> returns \<open>None\<close>.\<close>

definition resolve_link_rect ::
  "'p AnnotationEngine \<Rightarrow> 'p \<Rightarrow> LinkPosition \<Rightarrow> engine_error + Rect" where
  "resolve_link_rect E page link_pos =
     (case find_text_rect E page link_pos of
        Inl e \<Rightarrow> Inl e
      | Inr None \<Rightarrow> Inr (get_estimated_rect E page link_pos)
      | Inr (Some link_rect) \<Rightarrow> Inr link_rect)"

text \<open>\<open>_add_link\<close>: it returns the document, changed on one page or not at all, or the
  exception of the search.\<close>

definition add_link ::
  "'p AnnotationEngine \<Rightarrow> 'p list \<Rightarrow> LinkPosition \<Rightarrow> engine_error + 'p list" where
  "add_link E doc link_pos =
     (let page_idx = page_index link_pos;
          target_page_idx = target_page link_pos - 1
      in if page_idx < 0 \<or> page_idx \<ge> int (length doc) then Inr doc
         else if target_page_idx < 0 \<or> target_page_idx \<ge> int (length doc) then Inr doc
         else
           (let page = doc ! nat page_idx
            in case resolve_link_rect E page link_pos of
                 Inl e \<Rightarrow> Inl e
               | Inr link_rect \<Rightarrow>
                   (let link_dict = \<lparr>ld_kind = LINK_GOTO, ld_from = link_rect,
                                      ld_page = target_page_idx, ld_to = (0, 0)\<rparr>
                    in case insert_link E page link_dict of
                         Some page' \<Rightarrow> Inr (doc[nat page_idx := page'])
                       | None \<Rightarrow> Inr doc)))"

text \<open>\<open>add_links\<close> on the opened document: nothing to do for an empty list, else the loop
  over \<open>link_positions\<close>.\<close>

fun add_links_loop ::
  "'p AnnotationEngine \<Rightarrow> 'p list \<Rightarrow> LinkPosition list \<Rightarrow> engine_error + 'p list" where
  "add_links_loop E doc [] = Inr doc"
| "add_links_loop E doc (link_pos # rest) =
     (case add_link E doc link_pos of
        Inl e \<Rightarrow> Inl e
      | Inr doc' \<Rightarrow> add_links_loop E doc' rest)"

definition add_links ::
  "'p AnnotationEngine \<Rightarrow> 'p list \<Rightarrow> LinkPosition list \<Rightarrow> engine_error + 'p list" where
  "add_links E doc link_positions =
     (if link_positions = [] then Inr doc else add_links_loop E doc link_positions)"

text \<open>The distance that the search compares, and the condition under which \<open>_add_link\<close>
  returns at once.\<close>

definition vertical_distance :: "'p AnnotationEngine \<Rightarrow> 'p \<Rightarrow> LinkPosition \<Rightarrow> Rect \<Rightarrow> real" where
  "vertical_distance E page link_pos rect =
     \<bar>rect_y1 rect - (page_rect_height E page - pos_y link_pos)\<bar>"


text \<open>An engine, anchors and rectangles to run the annotator on: the search finds nothing
  for the text \<open>none\<close>, one rectangle for \<open>one\<close>, three for \<open>many\<close>, and raises for any
  other text; a page is the list of the links inserted on it.\<close>

definition example_rect :: "real \<Rightarrow> Rect" where
  "example_rect y = \<lparr>rect_x0 = 72, rect_y0 = y - 12, rect_x1 = 120, rect_y1 = y\<rparr>"

definition example_engine :: "(LinkDict list) AnnotationEngine" where
  "example_engine =
     \<lparr>search_for = (\<lambda>page t.
         if t = lit ''none'' then Inr []
         else if t = lit ''one'' then Inr [example_rect 95]
         else if t = lit ''many'' then Inr [example_rect 130, example_rect 95, example_rect 105]
         else Inl EngineError),
      page_rect_height = (\<lambda>page. 792),
      insert_link = (\<lambda>page link_dict. Some (page @ [link_dict]))\<rparr>"

definition example_anchor :: "int \<Rightarrow> int \<Rightarrow> string \<Rightarrow> LinkPosition" where
  "example_anchor page_idx target t =
     \<lparr>page_index = page_idx, target_page = target, link_text = lit t,
      pos_x = 72, pos_y = 692, pos_width = 48, pos_height = 12\<rparr>"

section \<open>Document builder (core/document\_builder.py)\<close>

text \<open>The builder holds the specification and a reference to its own link manager, made
  by \<open>LinkManager()\<close> in \<open>__init__\<close>.\<close>

record DocumentBuilder =
  builder_spec :: PrependSpecification
  builder_link_manager :: ref

definition DocumentBuilder_init :: "PrependSpecification \<Rightarrow> store \<Rightarrow> DocumentBuilder \<times> store" where
  "DocumentBuilder_init spec s =
     (let (r, s1) = new_LinkManager s
      in (\<lparr>builder_spec = spec, builder_link_manager = r\<rparr>, s1))"

text \<open>\<open>get_prepend_page_count\<close> makes a new link manager for its generator, generates,
  and returns the page count.\<close>

definition get_prepend_page_count ::
  "'p LayoutEngine \<Rightarrow> DocumentBuilder \<Rightarrow> store \<Rightarrow> int \<times> store" where
  "get_prepend_page_count L b s =
     (let (r, s1) = new_LinkManager s;
          generator = PageGenerator_init (builder_spec b) r;
          ((pdf_bytes, page_count, link_positions), generator) = generate L generator s1
      in (page_count, s1))"

text \<open>
  \<open>build\<close>: a first generation with the builder's link manager, to count the pages;
  \<open>set_prepended_page_count\<close> on that link manager; a second generation; the merge; the
  link annotations. The bytes that one library writes and the next reads are taken to keep
  the pages and the named destinations, so the final document is the annotated pages with
  the destinations of the merge.
\<close>

record 'p FinalDocument =
  final_pages :: "'p list"
  final_destinations :: "(pystr \<times> int) list"

definition build ::
  "'p LayoutEngine \<Rightarrow> (int \<Rightarrow> LinkAnnotation \<Rightarrow> bool) \<Rightarrow> 'p AnnotationEngine
   \<Rightarrow> DocumentBuilder \<Rightarrow> 'p list \<Rightarrow> store \<Rightarrow> (engine_error + 'p FinalDocument) \<times> store" where
  "build L accepts A b original_pdf s =
     (let generator = PageGenerator_init (builder_spec b) (builder_link_manager b);
          ((pdf_bytes, prepend_page_count, link_positions), generator) = generate L generator s;
          s1 = s[builder_link_manager b :=
                   set_prepended_page_count prepend_page_count (s ! builder_link_manager b)];
          generator = PageGenerator_init (builder_spec b) (builder_link_manager b);
          ((prepend_bytes, page_count, link_positions), generator) = generate L generator s1;
          merged = merge_with_destinations accepts prepend_bytes original_pdf
      in (case add_links A (writer_pages merged) link_positions of
            Inl e \<Rightarrow> Inl e
          | Inr annotated \<Rightarrow>
              Inr \<lparr>final_pages = annotated, final_destinations = writer_destinations merged\<rparr>,
          s1))"

text \<open>A layout engine, a specification and a builder to run the document builder on.
  The builder's link manager has one registered link and the offset 3.\<close>

definition example_layout :: "unit LayoutEngine" where
  "example_layout =
     \<lparr>place = (\<lambda>defaults flowables i.
         \<lparr>canv_page_number = 1, canv_x = 72, canv_y = 700 - 20 * real i,
          para_width = 468, para_height = 14\<rparr>),
      doc_page = (\<lambda>defaults flowables. 1),
      doc_bytes = (\<lambda>defaults flowables. [()])\<rparr>"

definition example_spec :: PrependSpecification where
  "example_spec =
     \<lparr>spec_defaults = \<lparr>d_font_size = 11, d_bold_marker = lit ''**'', d_italic_marker = lit ''_'',
         d_page_size = LETTER, d_left_margin = 72, d_right_margin = 72, d_top_margin = 72,
         d_bottom_margin = 72\<rparr>,
      spec_pages = [\<lparr>page_heading = None,
         page_content = [BulletPoint \<lparr>b_label = lit ''See'',
           b_content = [Str (lit ''chapter''), Linkable \<lparr>item_text = lit ''one'', item_target_page = 3\<rparr>],
           b_font_size = None, b_overflow_behavior = WRAP\<rparr>]\<rparr>]\<rparr>"

definition example_builder :: "DocumentBuilder \<times> store" where
  "example_builder =
     (let (b, s) = DocumentBuilder_init example_spec []
      in (b, s[builder_link_manager b :=
                 set_prepended_page_count 3 (snd (register_link 5 (s ! builder_link_manager b)))]))"

section \<open>Notions used to state the properties of the page generator\<close>












section \<open>Properties of the link manager\<close>

lemma update_links_loop_map:
  "update_links_loop c ls = map (\<lambda>l. l\<lparr>adjusted_page := Some (original_page l + c)\<rparr>) ls"
  by (induction ls) simp_all

lemma update_links_loop_length [simp]: "length (update_links_loop c ls) = length ls"
  by (simp add: update_links_loop_map)

lemma update_links_loop_twice [simp]:
  "update_links_loop b (update_links_loop a ls) = update_links_loop b ls"
  by (induction ls) simp_all

lemma links_set_prepended_page_count:
  "links (set_prepended_page_count c m) = update_links_loop c (links m)"
  by (simp add: set_prepended_page_count_def update_all_links_def)

lemma count_set_prepended_page_count:
  "prepended_page_count (set_prepended_page_count c m) = c"
  by (simp add: set_prepended_page_count_def update_all_links_def)

text \<open>
  Claim C1. After \<open>set_prepended_page_count c\<close>, \<open>get_adjusted_page p\<close> is \<open>p + c\<close> for
  every page \<open>p\<close>, whatever has been registered (also nothing), and every registered record
  keeps its original page, in the same position, with \<open>adjusted_page = original_page + c\<close>.
\<close>

theorem set_count_adjusts_all:
  "get_adjusted_page (set_prepended_page_count c m) p = p + c
   \<and> get_adjusted_page (set_prepended_page_count c LinkManager_init) p = p + c
   \<and> map original_page (links (set_prepended_page_count c m)) = map original_page (links m)
   \<and> (\<forall>l \<in> set (links (set_prepended_page_count c m)).
         adjusted_page l = Some (original_page l + c))"
  by (auto simp: get_adjusted_page_def count_set_prepended_page_count
      links_set_prepended_page_count update_links_loop_map)

theorem set_count_adjusts_all_witness:
  "links (set_prepended_page_count 2 (snd (register_link 7 (snd (register_link 5 LinkManager_init)))))
     = [\<lparr>original_page = 5, adjusted_page = Some 7\<rparr>, \<lparr>original_page = 7, adjusted_page = Some 9\<rparr>]
   \<and> get_adjusted_page (set_prepended_page_count 2 LinkManager_init) 5 = 7"
  using set_count_adjusts_all [of 2 "snd (register_link 7 (snd (register_link 5 LinkManager_init)))" 5]
  by (simp add: register_link_def LinkManager_init_def set_prepended_page_count_def
      update_all_links_def Let_def)

text \<open>
  Claim C4. Setting the count to \<open>a\<close> and then to \<open>b\<close> leaves the manager exactly as setting
  it to \<open>b\<close> alone does, so every record has \<open>adjusted_page = original_page + b\<close>; setting the
  same count twice is the same as setting it once.
\<close>

theorem set_count_overrides:
  "set_prepended_page_count b (set_prepended_page_count a m) = set_prepended_page_count b m
   \<and> set_prepended_page_count b (set_prepended_page_count b m) = set_prepended_page_count b m
   \<and> map adjusted_page (links (set_prepended_page_count b (set_prepended_page_count a m)))
       = map (\<lambda>l. Some (original_page l + b)) (links m)"
  by (simp add: set_prepended_page_count_def update_all_links_def update_links_loop_map)

text \<open>
  Claim C10. \<open>destination_name\<close> is defined for an unresolved record and is \<open>page_\<close>
  followed by the original page number; once \<open>adjusted_page\<close> is set it is \<open>page_\<close>
  followed by the adjusted page number.
\<close>

theorem destination_name_cases:
  "destination_name \<lparr>original_page = p, adjusted_page = None\<rparr> = lit ''page_'' @ str_int p
   \<and> destination_name \<lparr>original_page = p, adjusted_page = Some a\<rparr> = lit ''page_'' @ str_int a"
  by (simp add: destination_name_def)

section \<open>Properties of the page generator\<close>































section \<open>Properties of the PDF merger\<close>

lemma str_nat_nonempty: "str_nat n \<noteq> []"
  by (subst str_nat.simps) simp

lemma str_nat_inj: "str_nat m = str_nat n \<Longrightarrow> m = n"
proof (induction m arbitrary: n rule: str_nat.induct)
  case (1 m)
  show ?case
  proof (cases "m < 10")
    case True
    show ?thesis
    proof (cases "n < 10")
      case nl: True
      from "1.prems" True nl show ?thesis
        by (simp add: str_nat.simps [of m] str_nat.simps [of n] digit_char_def)
    next
      case False
      from "1.prems" True False str_nat_nonempty [of "n div 10"] show ?thesis
        by (simp add: str_nat.simps [of m] str_nat.simps [of n])
    qed
  next
    case False
    show ?thesis
    proof (cases "n < 10")
      case True
      from "1.prems" True False str_nat_nonempty [of "m div 10"] show ?thesis
        by (simp add: str_nat.simps [of m] str_nat.simps [of n])
    next
      case nl: False
      from "1.prems" False nl
      have e: "str_nat (m div 10) = str_nat (n div 10)" and d: "m mod 10 = n mod 10"
        by (simp_all add: str_nat.simps [of m] str_nat.simps [of n] digit_char_def)
      from "1.IH" [OF False e] have "m div 10 = n div 10" .
      with d show ?thesis
        by (metis div_mult_mod_eq)
    qed
  qed
qed

lemma page_name_inj: "inj (\<lambda>i::nat. lit ''page_'' @ str_int (int i + 1))"
proof (rule injI)
  fix x y :: nat
  assume "lit ''page_'' @ str_int (int x + 1) = lit ''page_'' @ str_int (int y + 1)"
  then have "str_nat (Suc x) = str_nat (Suc y)"
    by (simp add: str_int_def nat_add_distrib)
  then show "x = y" using str_nat_inj by blast
qed

lemma add_pages_loop_pages: "writer_pages (add_pages_loop ps w) = writer_pages w @ ps"
  by (induction ps arbitrary: w) (simp_all add: add_page_def)

lemma add_pages_loop_dests:
  "writer_destinations (add_pages_loop ps w) = writer_destinations w"
  by (induction ps arbitrary: w) (simp_all add: add_page_def)

lemma named_destinations_loop_pages: "writer_pages (named_destinations_loop is w) = writer_pages w"
  by (induction "is" arbitrary: w) (simp_all add: add_named_destination_def)

lemma named_destinations_loop_dests:
  "writer_destinations (named_destinations_loop is w)
     = writer_destinations w @ map (\<lambda>i. (lit ''page_'' @ str_int (int i + 1), int i)) is"
  by (induction "is" arbitrary: w) (simp_all add: add_named_destination_def)

lemma add_link_annotations_frame:
  "writer_pages (add_link_annotations accepts lps w) = writer_pages w
   \<and> writer_destinations (add_link_annotations accepts lps w) = writer_destinations w"
  by (induction lps arbitrary: w) (simp_all add: Let_def)

text \<open>
  Claim C3. For prefix pages and original pages of any lengths \<open>m\<close> and \<open>n\<close>, with or
  without link positions, the merged document has the prefix pages followed by the
  original pages, and its named destinations are exactly \<open>page_1\<close>, ..., \<open>page_(m+n)\<close>,
  one for each page (\<open>page_i\<close> on page index \<open>i - 1\<close>), with no name twice.
\<close>

theorem merge_pages_and_destinations:
  "writer_pages (merge_with_destinations_and_links accepts prefix_pages original_pages link_positions)
     = prefix_pages @ original_pages
   \<and> writer_destinations
        (merge_with_destinations_and_links accepts prefix_pages original_pages link_positions)
     = map (\<lambda>i. (lit ''page_'' @ str_int (int i + 1), int i))
         [0..<length prefix_pages + length original_pages]
   \<and> distinct (map fst (writer_destinations
        (merge_with_destinations_and_links accepts prefix_pages original_pages link_positions)))"
proof -
  let ?w = "named_destinations_loop [0..<length prefix_pages + length original_pages]
              (add_pages_loop original_pages (add_pages_loop prefix_pages PdfWriter_init))"
  have p: "writer_pages ?w = prefix_pages @ original_pages"
    by (simp add: named_destinations_loop_pages add_pages_loop_pages PdfWriter_init_def)
  have d: "writer_destinations ?w = map (\<lambda>i. (lit ''page_'' @ str_int (int i + 1), int i))
         [0..<length prefix_pages + length original_pages]"
    by (simp add: named_destinations_loop_dests add_pages_loop_dests PdfWriter_init_def)
  have m: "writer_pages (merge_with_destinations_and_links accepts prefix_pages original_pages link_positions)
       = writer_pages ?w
     \<and> writer_destinations (merge_with_destinations_and_links accepts prefix_pages original_pages link_positions)
       = writer_destinations ?w"
    by (cases link_positions)
       (simp_all add: merge_with_destinations_and_links_def Let_def add_link_annotations_frame)
  have "distinct (map (\<lambda>i. lit ''page_'' @ str_int (int i + 1))
      [0..<length prefix_pages + length original_pages])"
    by (simp add: distinct_map inj_on_subset [OF page_name_inj])
  then have "distinct (map fst (writer_destinations ?w))"
    by (simp add: d o_def)
  with m p d show ?thesis by simp
qed

section \<open>Properties of the link annotator\<close>

lemma closest_loop_some:
  "\<exists>m pre post. closest_loop ey rs (Some b, Some \<bar>rect_y1 b - ey\<bar>) = (Some m, Some \<bar>rect_y1 m - ey\<bar>)
     \<and> b # rs = pre @ m # post
     \<and> (\<forall>r \<in> set pre. \<bar>rect_y1 m - ey\<bar> < \<bar>rect_y1 r - ey\<bar>)
     \<and> (\<forall>r \<in> set post. \<bar>rect_y1 m - ey\<bar> \<le> \<bar>rect_y1 r - ey\<bar>)"
proof (induction rs arbitrary: b)
  case Nil
  have "closest_loop ey [] (Some b, Some \<bar>rect_y1 b - ey\<bar>) = (Some b, Some \<bar>rect_y1 b - ey\<bar>)
     \<and> [b] = [] @ b # []" by simp
  then show ?case by fastforce
next
  case (Cons r rest)
  show ?case
  proof (cases "\<bar>rect_y1 r - ey\<bar> < \<bar>rect_y1 b - ey\<bar>")
    case True
    from Cons.IH [of r] obtain m pre post where
      l: "closest_loop ey rest (Some r, Some \<bar>rect_y1 r - ey\<bar>) = (Some m, Some \<bar>rect_y1 m - ey\<bar>)"
      and s: "r # rest = pre @ m # post"
      and p: "\<forall>x \<in> set pre. \<bar>rect_y1 m - ey\<bar> < \<bar>rect_y1 x - ey\<bar>"
      and q: "\<forall>x \<in> set post. \<bar>rect_y1 m - ey\<bar> \<le> \<bar>rect_y1 x - ey\<bar>"
      by blast
    have le: "\<bar>rect_y1 m - ey\<bar> \<le> \<bar>rect_y1 r - ey\<bar>"
    proof (cases pre)
      case Nil with s show ?thesis by simp
    next
      case (Cons a as)
      with s have "r \<in> set pre" by simp
      with p show ?thesis by fastforce
    qed
    have l': "closest_loop ey (r # rest) (Some b, Some \<bar>rect_y1 b - ey\<bar>)
        = (Some m, Some \<bar>rect_y1 m - ey\<bar>)"
      using True l by (simp add: less_than_best_def)
    have s': "b # r # rest = (b # pre) @ m # post" using s by simp
    have p': "\<forall>x \<in> set (b # pre). \<bar>rect_y1 m - ey\<bar> < \<bar>rect_y1 x - ey\<bar>"
      using p le True by auto
    from l' s' p' q show ?thesis by blast
  next
    case False
    from Cons.IH [of b] obtain m pre post where
      l: "closest_loop ey rest (Some b, Some \<bar>rect_y1 b - ey\<bar>) = (Some m, Some \<bar>rect_y1 m - ey\<bar>)"
      and s: "b # rest = pre @ m # post"
      and p: "\<forall>x \<in> set pre. \<bar>rect_y1 m - ey\<bar> < \<bar>rect_y1 x - ey\<bar>"
      and q: "\<forall>x \<in> set post. \<bar>rect_y1 m - ey\<bar> \<le> \<bar>rect_y1 x - ey\<bar>"
      by blast
    have l': "closest_loop ey (r # rest) (Some b, Some \<bar>rect_y1 b - ey\<bar>)
        = (Some m, Some \<bar>rect_y1 m - ey\<bar>)"
      using False l by (simp add: less_than_best_def)
    show ?thesis
    proof (cases pre)
      case Nil
      with s have mb: "m = b" and pr: "post = rest" by simp_all
      have s': "b # r # rest = [] @ m # (r # rest)" using mb by simp
      have q': "\<forall>x \<in> set (r # rest). \<bar>rect_y1 m - ey\<bar> \<le> \<bar>rect_y1 x - ey\<bar>"
        using q pr mb False by auto
      have p': "\<forall>x \<in> set ([]::Rect list). \<bar>rect_y1 m - ey\<bar> < \<bar>rect_y1 x - ey\<bar>" by simp
      from l' s' p' q' show ?thesis by blast
    next
      case (Cons a as)
      with s have ab: "a = b" and rs: "rest = as @ m # post" by simp_all
      have "b \<in> set pre" using Cons ab by simp
      with p have lt: "\<bar>rect_y1 m - ey\<bar> < \<bar>rect_y1 b - ey\<bar>" by blast
      have s': "b # r # rest = (b # r # as) @ m # post" using rs by simp
      have p': "\<forall>x \<in> set (b # r # as). \<bar>rect_y1 m - ey\<bar> < \<bar>rect_y1 x - ey\<bar>"
        using p Cons ab lt False by auto
      from l' s' p' q show ?thesis by blast
    qed
  qed
qed

lemma closest_loop_first:
  "\<exists>m pre post. fst (closest_loop ey (r # rs) (None, None)) = Some m
     \<and> r # rs = pre @ m # post
     \<and> (\<forall>x \<in> set pre. \<bar>rect_y1 m - ey\<bar> < \<bar>rect_y1 x - ey\<bar>)
     \<and> (\<forall>x \<in> set post. \<bar>rect_y1 m - ey\<bar> \<le> \<bar>rect_y1 x - ey\<bar>)"
proof -
  from closest_loop_some [of ey rs r] obtain m pre post where
    l: "closest_loop ey rs (Some r, Some \<bar>rect_y1 r - ey\<bar>) = (Some m, Some \<bar>rect_y1 m - ey\<bar>)"
    and s: "r # rs = pre @ m # post"
    and p: "\<forall>x \<in> set pre. \<bar>rect_y1 m - ey\<bar> < \<bar>rect_y1 x - ey\<bar>"
    and q: "\<forall>x \<in> set post. \<bar>rect_y1 m - ey\<bar> \<le> \<bar>rect_y1 x - ey\<bar>"
    by blast
  have "fst (closest_loop ey (r # rs) (None, None)) = Some m"
    using l by (simp add: less_than_best_def)
  with s p q show ?thesis by blast
qed








lemma find_text_rect_many:
  assumes t: "link_text link_pos \<noteq> []"
    and s: "search_for E page (link_text link_pos) = Inr rs"
    and l: "2 \<le> length rs"
  shows "find_text_rect E page link_pos
     = Inr (fst (closest_loop (page_rect_height E page - pos_y link_pos) rs (None, None)))"
proof -
  from l have "rs \<noteq> []" "length rs \<noteq> 1" by auto
  with t s show ?thesis by (simp add: find_text_rect_def Let_def)
qed

text \<open>
  Claim C6. How \<open>_add_link\<close> resolves an anchor's rectangle. For an empty link text no
  search is made and the estimated rectangle is used. For a link text that is searched:
  no match gives the estimated rectangle; one match gives that match; two or more matches
  give a match \<open>m\<close> that is strictly closer, in vertical distance to the estimated
  \<open>y\<close>, than every match found before it, and at least as close as every match found
  after it: the closest one, and the first found among equally close ones.
\<close>

theorem resolve_link_rect_policy:
  "(link_text link_pos = [] \<longrightarrow>
      resolve_link_rect E page link_pos = Inr (get_estimated_rect E page link_pos))
   \<and> (link_text link_pos \<noteq> [] \<and> search_for E page (link_text link_pos) = Inr [] \<longrightarrow>
      resolve_link_rect E page link_pos = Inr (get_estimated_rect E page link_pos))
   \<and> (link_text link_pos \<noteq> [] \<and> search_for E page (link_text link_pos) = Inr [r] \<longrightarrow>
      resolve_link_rect E page link_pos = Inr r)
   \<and> (link_text link_pos \<noteq> [] \<and> search_for E page (link_text link_pos) = Inr rs
        \<and> 2 \<le> length rs \<longrightarrow>
      (\<exists>m pre post. resolve_link_rect E page link_pos = Inr m \<and> rs = pre @ m # post
         \<and> (\<forall>x \<in> set pre. vertical_distance E page link_pos m < vertical_distance E page link_pos x)
         \<and> (\<forall>x \<in> set post. vertical_distance E page link_pos m \<le> vertical_distance E page link_pos x)))"
proof (intro conjI impI)
  assume "link_text link_pos = []"
  then show "resolve_link_rect E page link_pos = Inr (get_estimated_rect E page link_pos)"
    by (simp add: resolve_link_rect_def find_text_rect_def)
next
  assume "link_text link_pos \<noteq> [] \<and> search_for E page (link_text link_pos) = Inr []"
  then show "resolve_link_rect E page link_pos = Inr (get_estimated_rect E page link_pos)"
    by (simp add: resolve_link_rect_def find_text_rect_def)
next
  assume "link_text link_pos \<noteq> [] \<and> search_for E page (link_text link_pos) = Inr [r]"
  then show "resolve_link_rect E page link_pos = Inr r"
    by (simp add: resolve_link_rect_def find_text_rect_def)
next
  assume a: "link_text link_pos \<noteq> [] \<and> search_for E page (link_text link_pos) = Inr rs
    \<and> 2 \<le> length rs"
  let ?ey = "page_rect_height E page - pos_y link_pos"
  from a obtain r0 rest where rs: "rs = r0 # rest" by (cases rs) auto
  from closest_loop_first [of ?ey r0 rest] obtain m pre post where
    f: "fst (closest_loop ?ey (r0 # rest) (None, None)) = Some m"
    and s: "r0 # rest = pre @ m # post"
    and p: "\<forall>x \<in> set pre. \<bar>rect_y1 m - ?ey\<bar> < \<bar>rect_y1 x - ?ey\<bar>"
    and q: "\<forall>x \<in> set post. \<bar>rect_y1 m - ?ey\<bar> \<le> \<bar>rect_y1 x - ?ey\<bar>"
    by blast
  from a have "find_text_rect E page link_pos = Inr (fst (closest_loop ?ey rs (None, None)))"
    by (intro find_text_rect_many) simp_all
  with f rs have "resolve_link_rect E page link_pos = Inr m"
    by (simp add: resolve_link_rect_def)
  with s p q rs
  show "\<exists>m pre post. resolve_link_rect E page link_pos = Inr m \<and> rs = pre @ m # post
         \<and> (\<forall>x \<in> set pre. vertical_distance E page link_pos m < vertical_distance E page link_pos x)
         \<and> (\<forall>x \<in> set post. vertical_distance E page link_pos m \<le> vertical_distance E page link_pos x)"
    unfolding vertical_distance_def by blast
qed

theorem resolve_link_rect_policy_witness:
  "resolve_link_rect example_engine [] (example_anchor 0 2 [])
     = Inr \<lparr>rect_x0 = 72, rect_y0 = 88, rect_x1 = 120, rect_y1 = 100\<rparr>
   \<and> resolve_link_rect example_engine [] (example_anchor 0 2 ''none'')
     = Inr \<lparr>rect_x0 = 72, rect_y0 = 88, rect_x1 = 120, rect_y1 = 100\<rparr>
   \<and> resolve_link_rect example_engine [] (example_anchor 0 2 ''one'') = Inr (example_rect 95)
   \<and> resolve_link_rect example_engine [] (example_anchor 0 2 ''many'') = Inr (example_rect 95)
   \<and> vertical_distance example_engine [] (example_anchor 0 2 ''many'') (example_rect 130) = 30
   \<and> vertical_distance example_engine [] (example_anchor 0 2 ''many'') (example_rect 95) = 5
   \<and> vertical_distance example_engine [] (example_anchor 0 2 ''many'') (example_rect 105) = 5"
proof -
  let ?E = example_engine
  let ?p = "[] :: LinkDict list"
  have est: "get_estimated_rect ?E ?p (example_anchor 0 2 t)
      = \<lparr>rect_x0 = 72, rect_y0 = 88, rect_x1 = 120, rect_y1 = 100\<rparr>" for t
    by (simp add: get_estimated_rect_def example_engine_def example_anchor_def)
  have t0: "link_text (example_anchor 0 2 []) = []"
    by (simp add: example_anchor_def lit_def)
  have t1: "link_text (example_anchor 0 2 ''none'') \<noteq> []
      \<and> search_for ?E ?p (link_text (example_anchor 0 2 ''none'')) = Inr []"
    by (simp add: example_anchor_def example_engine_def lit_def)
  have t2: "link_text (example_anchor 0 2 ''one'') \<noteq> []
      \<and> search_for ?E ?p (link_text (example_anchor 0 2 ''one'')) = Inr [example_rect 95]"
    by (simp add: example_anchor_def example_engine_def lit_def)
  have t3: "link_text (example_anchor 0 2 ''many'') \<noteq> []
      \<and> search_for ?E ?p (link_text (example_anchor 0 2 ''many''))
          = Inr [example_rect 130, example_rect 95, example_rect 105]
      \<and> 2 \<le> length [example_rect 130, example_rect 95, example_rect 105]"
    by (simp add: example_anchor_def example_engine_def lit_def)
  have d130: "vertical_distance ?E ?p (example_anchor 0 2 ''many'') (example_rect 130) = 30"
    and d95: "vertical_distance ?E ?p (example_anchor 0 2 ''many'') (example_rect 95) = 5"
    and d105: "vertical_distance ?E ?p (example_anchor 0 2 ''many'') (example_rect 105) = 5"
    by (simp_all add: vertical_distance_def example_engine_def example_anchor_def example_rect_def)
  note pol = resolve_link_rect_policy
  have r0: "resolve_link_rect ?E ?p (example_anchor 0 2 [])
      = Inr \<lparr>rect_x0 = 72, rect_y0 = 88, rect_x1 = 120, rect_y1 = 100\<rparr>"
    using pol [of "example_anchor 0 2 []" ?E ?p, THEN conjunct1, THEN mp, OF t0]
    by (simp only: est)
  have r1: "resolve_link_rect ?E ?p (example_anchor 0 2 ''none'')
      = Inr \<lparr>rect_x0 = 72, rect_y0 = 88, rect_x1 = 120, rect_y1 = 100\<rparr>"
    using pol [of "example_anchor 0 2 ''none''" ?E ?p, THEN conjunct2, THEN conjunct1, THEN mp, OF t1]
    by (simp only: est)
  have r2: "resolve_link_rect ?E ?p (example_anchor 0 2 ''one'') = Inr (example_rect 95)"
    by (rule pol [of "example_anchor 0 2 ''one''" ?E ?p "example_rect 95",
          THEN conjunct2, THEN conjunct2, THEN conjunct1, THEN mp, OF t2])
  from pol [of "example_anchor 0 2 ''many''" ?E ?p _
        "[example_rect 130, example_rect 95, example_rect 105]",
        THEN conjunct2, THEN conjunct2, THEN conjunct2, THEN mp, OF t3]
  obtain m pre post where
    rm: "resolve_link_rect ?E ?p (example_anchor 0 2 ''many'') = Inr m"
    and s: "[example_rect 130, example_rect 95, example_rect 105] = pre @ m # post"
    and p: "\<forall>x \<in> set pre. vertical_distance ?E ?p (example_anchor 0 2 ''many'') m
              < vertical_distance ?E ?p (example_anchor 0 2 ''many'') x"
    and q: "\<forall>x \<in> set post. vertical_distance ?E ?p (example_anchor 0 2 ''many'') m
              \<le> vertical_distance ?E ?p (example_anchor 0 2 ''many'') x"
    by blast
  from s consider
      (first) "pre = []" "m = example_rect 130" "post = [example_rect 95, example_rect 105]"
    | (second) "pre = [example_rect 130]" "m = example_rect 95" "post = [example_rect 105]"
    | (third) "pre = [example_rect 130, example_rect 95]" "m = example_rect 105" "post = []"
    by (auto simp: Cons_eq_append_conv)
  then have "m = example_rect 95"
  proof cases
    case first
    with q d130 d95 show ?thesis by simp
  next
    case second
    then show ?thesis by simp
  next
    case third
    with p d105 d95 show ?thesis by simp
  qed
  with rm have r3: "resolve_link_rect ?E ?p (example_anchor 0 2 ''many'') = Inr (example_rect 95)"
    by simp
  show ?thesis by (intro conjI r0 r1 r2 r3 d130 d95 d105)
qed

section \<open>Properties of the document builder\<close>

text \<open>By contrast with the claim below, \<open>build\<close> does write the builder's link manager:
  its offset becomes the page count of the first generation.\<close>

lemma build_resolves_offset:
  assumes "builder_link_manager b < length s"
  shows "prepended_page_count (snd (build L accepts A b original_pdf s) ! builder_link_manager b)
    = fst (snd (fst (generate L (PageGenerator_init (builder_spec b) (builder_link_manager b)) s)))"
  using assms
  by (simp add: build_def split_beta Let_def count_set_prepended_page_count)

text \<open>
  Claim C9. \<open>get_prepend_page_count\<close> leaves the builder's link manager as it was: the
  object at the builder's reference is the same after the call, so its
  \<open>prepended_page_count\<close> and its registered links are; every object that existed
  before the call is unchanged. The count it returns is the page count of a generation
  with a new link manager.
\<close>

theorem get_prepend_page_count_frame:
  assumes "builder_link_manager b < length s"
  shows "snd (get_prepend_page_count L b s) ! builder_link_manager b = s ! builder_link_manager b
    \<and> prepended_page_count (snd (get_prepend_page_count L b s) ! builder_link_manager b)
        = prepended_page_count (s ! builder_link_manager b)
    \<and> links (snd (get_prepend_page_count L b s) ! builder_link_manager b)
        = links (s ! builder_link_manager b)
    \<and> take (length s) (snd (get_prepend_page_count L b s)) = s
    \<and> fst (get_prepend_page_count L b s)
        = fst (snd (fst (generate L (PageGenerator_init (builder_spec b) (length s))
                           (s @ [LinkManager_init]))))"
  using assms
  by (simp add: get_prepend_page_count_def new_LinkManager_def split_beta Let_def nth_append)

theorem get_prepend_page_count_frame_witness:
  "builder_link_manager (fst example_builder) < length (snd example_builder)
   \<and> snd example_builder
       = [\<lparr>prepended_page_count = 3, links = [\<lparr>original_page = 5, adjusted_page = Some 8\<rparr>]\<rparr>]
   \<and> snd (get_prepend_page_count example_layout (fst example_builder) (snd example_builder))
        ! builder_link_manager (fst example_builder)
       = \<lparr>prepended_page_count = 3, links = [\<lparr>original_page = 5, adjusted_page = Some 8\<rparr>]\<rparr>
   \<and> fst (get_prepend_page_count example_layout (fst example_builder) (snd example_builder)) = 1"
proof -
  have b: "fst example_builder = \<lparr>builder_spec = example_spec, builder_link_manager = 0\<rparr>"
    and s: "snd example_builder
       = [\<lparr>prepended_page_count = 3, links = [\<lparr>original_page = 5, adjusted_page = Some 8\<rparr>]\<rparr>]"
    by (simp_all add: example_builder_def DocumentBuilder_init_def new_LinkManager_def
        LinkManager_init_def register_link_def set_prepended_page_count_def update_all_links_def
        Let_def)
  have h: "builder_link_manager (fst example_builder) < length (snd example_builder)"
    by (simp add: b s)
  have c: "fst (get_prepend_page_count example_layout (fst example_builder) (snd example_builder)) = 1"
    by (simp add: get_prepend_page_count_def generate_def new_LinkManager_def split_beta Let_def
        example_layout_def)
  from get_prepend_page_count_frame [OF h, of example_layout, THEN conjunct1]
  have "snd (get_prepend_page_count example_layout (fst example_builder) (snd example_builder))
        ! builder_link_manager (fst example_builder)
       = \<lparr>prepended_page_count = 3, links = [\<lparr>original_page = 5, adjusted_page = Some 8\<rparr>]\<rparr>"
    by (simp add: b s)
  with h s c show ?thesis by simp
qed

section \<open>Properties of the text formatter\<close>

text \<open>
  Claim C8. With the default markers, \<open>**Bold** and _italic_\<close> is formatted to
  \<open><b>Bold</b> and <i>italic</i>\<close>: one bold region (one opening and one closing bold
  tag), one italic region, and no \<open>*\<close> and no \<open>_\<close> anywhere in the output.
\<close>

theorem format_text_scenario_d:
  "format_text TextFormatter_default (lit ''**Bold** and _italic_'') True True True
     = lit ''<b>Bold</b> and <i>italic</i>''
   \<and> count_str (format_text TextFormatter_default (lit ''**Bold** and _italic_'') True True True)
         (lit ''<b>'') = 1
   \<and> count_str (format_text TextFormatter_default (lit ''**Bold** and _italic_'') True True True)
         (lit ''</b>'') = 1
   \<and> count_str (format_text TextFormatter_default (lit ''**Bold** and _italic_'') True True True)
         (lit ''<i>'') = 1
   \<and> count_str (format_text TextFormatter_default (lit ''**Bold** and _italic_'') True True True)
         (lit ''</i>'') = 1
   \<and> \<not> contains (format_text TextFormatter_default (lit ''**Bold** and _italic_'') True True True)
         (lit ''*'')
   \<and> \<not> contains (format_text TextFormatter_default (lit ''**Bold** and _italic_'') True True True)
         (lit ''_'')"
proof -
  have out: "format_text TextFormatter_default (lit ''**Bold** and _italic_'') True True True
     = lit ''<b>Bold</b> and <i>italic</i>''"
    by code_simp
  show ?thesis
    unfolding out by code_simp
qed

end
